theory Spec2Isabelle
  imports Complex_Main "HOL-Library.AList"
begin

section \<open>Data model of \<open>swim_adsb/adsb/air_traffic.py\<close>\<close>

text \<open>
  The module reads its inputs defensively with \<open>getattr(obj, name, None)\<close>, so every
  attribute is an optional value: \<open>None\<close> stands for a missing attribute as well as for
  an attribute holding Python's \<open>None\<close>.  Latitude and longitude are floats that the
  module only copies; their type is left as the parameter \<open>'f\<close>.
\<close>

record 'f StateVector =
  sv_icao24 :: "string option"
  latitude :: "'f option"
  longitude :: "'f option"
  last_contact :: "int option"

record FlightData =
  fd_icao24 :: "string option"
  estDepartureAirport :: "string option"
  estArrivalAirport :: "string option"

text \<open>The reduced record: the dictionary with the keys
  \<open>icao24\<close>, \<open>lat\<close>, \<open>lng\<close>, \<open>from\<close>, \<open>to\<close> and \<open>last_contact\<close>.\<close>

record 'f AirTrafficData =
  r_icao24 :: "string option"
  r_lat :: "'f option"
  r_lng :: "'f option"
  r_from :: string
  r_to :: string
  r_last_contact :: "int option"

subsection \<open>Python truthiness and dictionaries\<close>

text \<open>An optional string is truthy when it is present and not the empty string.\<close>

definition truthy :: "string option \<Rightarrow> bool" where
  "truthy x = (case x of None \<Rightarrow> False | Some s \<Rightarrow> s \<noteq> [])"

text \<open>\<open>x or d\<close> for an optional string \<open>x\<close> and a string \<open>d\<close>.\<close>

definition or_default :: "string option \<Rightarrow> string \<Rightarrow> string" where
  "or_default x d = (case x of None \<Rightarrow> d | Some s \<Rightarrow> if s = [] then d else s)"

text \<open>\<open>xs or []\<close> for an optional list.\<close>

definition or_empty :: "'a list option \<Rightarrow> 'a list" where
  "or_empty x = (case x of None \<Rightarrow> [] | Some xs \<Rightarrow> xs)"

text \<open>
  A Python dictionary keeps its keys in insertion order; storing under a key that is
  already there replaces the value and leaves the key where it is.  That is an
  association list with \<^const>\<open>AList.update\<close> as \<open>d[k] = v\<close>, \<^const>\<open>map_of\<close> as
  \<open>d.get(k)\<close> and \<open>d.items()\<close> the list itself.
\<close>

type_synonym ('k, 'v) py_dict = "('k \<times> 'v) list"

definition dict_setitem :: "('k, 'v) py_dict \<Rightarrow> 'k \<Rightarrow> 'v \<Rightarrow> ('k, 'v) py_dict" where
  "dict_setitem d k v = AList.update k v d"

definition dict_get :: "('k, 'v) py_dict \<Rightarrow> 'k \<Rightarrow> 'v option" where
  "dict_get d k = map_of d k"

definition dict_contains :: "'k \<Rightarrow> ('k, 'v) py_dict \<Rightarrow> bool" where
  "dict_contains k d = (k \<in> fst ` set d)"

section \<open>The join\<close>

text \<open>\<open>_get_flight_data(state, flight_connection)\<close>.\<close>

definition get_flight_data :: "'f StateVector option \<Rightarrow> FlightData \<Rightarrow> 'f AirTrafficData" where
  "get_flight_data state flight_connection =
     (let from_airport = or_default (estDepartureAirport flight_connection) ''Unknown airport'';
          to_airport = or_default (estArrivalAirport flight_connection) ''Unknown airport''
      in case state of
           None \<Rightarrow>
             \<lparr>r_icao24 = fd_icao24 flight_connection, r_lat = None, r_lng = None,
              r_from = from_airport, r_to = to_airport, r_last_contact = None\<rparr>
         | Some st \<Rightarrow>
             \<lparr>r_icao24 = sv_icao24 st, r_lat = latitude st, r_lng = longitude st,
              r_from = from_airport, r_to = to_airport, r_last_contact = last_contact st\<rparr>)"

text \<open>The dictionary comprehension
  \<open>{getattr(fc, "icao24", None): fc for fc in flight_connections if getattr(fc, "icao24", None)}\<close>:
  one store per connection with a truthy identifier, in list order.\<close>

definition fc_store :: "(string, FlightData) py_dict \<Rightarrow> FlightData \<Rightarrow> (string, FlightData) py_dict" where
  "fc_store d fc =
     (case fd_icao24 fc of
        None \<Rightarrow> d
      | Some k \<Rightarrow> if truthy (fd_icao24 fc) then dict_setitem d k fc else d)"

definition flight_connections_dict :: "FlightData list \<Rightarrow> (string, FlightData) py_dict" where
  "flight_connections_dict flight_connections = foldl fc_store [] flight_connections"

text \<open>\<open>{icao24: fc for icao24, fc in flight_connections_dict.items() if icao24 in states_dict}\<close>;
  the keys of the source dictionary are distinct, so the comprehension keeps its order.\<close>

definition flight_connections_with_state ::
  "(string, 'f StateVector) py_dict \<Rightarrow> (string, FlightData) py_dict \<Rightarrow> (string, FlightData) py_dict" where
  "flight_connections_with_state states_dict fcd =
     filter (\<lambda>(icao24, fc). dict_contains icao24 states_dict) fcd"

text \<open>The arguments of the calls of \<open>_get_flight_data\<close> that the final list comprehension
  makes, in order: \<open>(states_dict.get(fc_icao24), fc)\<close> for each surviving item.\<close>

definition get_flight_data_args ::
  "(string, 'f StateVector) py_dict \<Rightarrow> FlightData list \<Rightarrow> ('f StateVector option \<times> FlightData) list" where
  "get_flight_data_args states_dict flight_connections =
     map (\<lambda>(fc_icao24, fc). (dict_get states_dict fc_icao24, fc))
       (flight_connections_with_state states_dict (flight_connections_dict flight_connections))"

text \<open>\<open>_flight_connection_handler(airport, states_dict, get_flight_connections_handler)\<close>.\<close>

definition flight_connection_handler ::
  "string \<Rightarrow> (string, 'f StateVector) py_dict \<Rightarrow> (string \<Rightarrow> FlightData list option)
     \<Rightarrow> 'f AirTrafficData list" where
  "flight_connection_handler airport states_dict get_flight_connections_handler =
     (let flight_connections = or_empty (get_flight_connections_handler airport)
      in map (\<lambda>(state, fc). get_flight_data state fc)
           (get_flight_data_args states_dict flight_connections))"

section \<open>Retrieval\<close>

text \<open>
  An exception raised by a provider call.  The handlers of the module are
  \<open>except Exception\<close> clauses, which catch the instances of \<open>Exception\<close> and let every other
  \<open>BaseException\<close> (\<open>KeyboardInterrupt\<close>, \<open>SystemExit\<close>, \<open>GeneratorExit\<close>) pass; so an
  exception carries whether it is an instance of \<open>Exception\<close>, and its text.  A call
  that can raise returns \<open>Inl\<close> of the exception.
\<close>

datatype py_exception = PyException (is_Exception: bool) (message: string)

text \<open>The object returned by the provider's \<open>get_states()\<close>; only its attribute
  \<open>states\<close> is read.\<close>

record 'f OpenSkyStates =
  states :: "'f StateVector list option"

text \<open>\<open>_get_states()\<close>, given what \<open>self.client.get_states()\<close> does.  The call of the
  logger in the handler is not modelled.\<close>

definition get_states ::
  "py_exception + 'f OpenSkyStates option \<Rightarrow> py_exception + 'f StateVector list" where
  "get_states client_get_states =
     (case client_get_states of
        Inl e \<Rightarrow> if is_Exception e then Inr [] else Inl e
      | Inr None \<Rightarrow> Inr []
      | Inr (Some states_obj) \<Rightarrow> Inr (or_empty (states states_obj)))"

subsection \<open>The time window\<close>

text \<open>
  A naive \<open>datetime\<close>: the date as its proleptic Gregorian ordinal (\<open>date.toordinal()\<close>: 1
  is 0001-01-01 and 3652059 is 9999-12-31, the dates Python can represent) and the
  time of day.
\<close>

record datetime =
  ordinal :: int
  hour :: nat
  minute :: nat
  second :: nat
  microsecond :: nat

definition MAXORDINAL :: int where
  "MAXORDINAL = 3652059"

definition OverflowError :: py_exception where
  "OverflowError = PyException True ''OverflowError''"

text \<open>\<open>timedelta(days=n)\<close>, as its number of days: the constructor raises
  \<open>OverflowError\<close> beyond 999999999 days.\<close>

definition timedelta :: "int \<Rightarrow> py_exception + int" where
  "timedelta days = (if \<bar>days\<bar> \<le> 999999999 then Inr days else Inl OverflowError)"

text \<open>\<open>dt - timedelta(days=n)\<close>: the time of day stays, the date moves; a date outside the
  representable range raises \<open>OverflowError\<close>.\<close>

definition datetime_sub :: "datetime \<Rightarrow> int \<Rightarrow> py_exception + datetime" where
  "datetime_sub dt days =
     (let d = ordinal dt - days
      in if 0 < d \<and> d \<le> MAXORDINAL then Inr (dt\<lparr>ordinal := d\<rparr>) else Inl OverflowError)"

text \<open>\<open>int(x)\<close> for a float: truncation towards zero.\<close>

definition py_int :: "real \<Rightarrow> int" where
  "py_int x = (if x < 0 then \<lceil>x\<rceil> else \<lfloor>x\<rfloor>)"

text \<open>
  The property \<open>_days_span_in_timestamps\<close>.  What \<open>datetime.today()\<close> returns at the call
  and the conversion \<open>datetime.timestamp()\<close> of the platform (local time to seconds since
  the epoch, a float, or an exception) are arguments.
\<close>

definition days_span_in_timestamps ::
  "int \<Rightarrow> datetime \<Rightarrow> (datetime \<Rightarrow> py_exception + real) \<Rightarrow> py_exception + int \<times> int" where
  "days_span_in_timestamps traffic_time_span_in_days today timestamp =
     (let last_day = today in
      case timedelta traffic_time_span_in_days of
        Inl e \<Rightarrow> Inl e
      | Inr td \<Rightarrow>
          (case datetime_sub last_day td of
             Inl e \<Rightarrow> Inl e
           | Inr first_day \<Rightarrow>
               (let start_of_first_day =
                      first_day\<lparr>hour := 0, minute := 0, second := 0, microsecond := 0\<rparr>;
                    end_of_last_day =
                      last_day\<lparr>hour := 23, minute := 59, second := 59, microsecond := 999999\<rparr>
                in case timestamp start_of_first_day of
                     Inl e \<Rightarrow> Inl e
                   | Inr start_ts \<Rightarrow>
                       (case timestamp end_of_last_day of
                          Inl e \<Rightarrow> Inl e
                        | Inr end_ts \<Rightarrow> Inr (py_int start_ts, py_int end_ts)))))"

text \<open>\<open>_flight_connections_today(icao, callback)\<close>: the time window is computed before the
  \<open>try\<close>, so an exception of that computation reaches the caller and the callback is not
  called.  The call of the logger in the handler is not modelled.\<close>

definition flight_connections_today ::
  "int \<Rightarrow> datetime \<Rightarrow> (datetime \<Rightarrow> py_exception + real) \<Rightarrow> string
     \<Rightarrow> (string \<Rightarrow> int \<Rightarrow> int \<Rightarrow> py_exception + FlightData list option)
     \<Rightarrow> py_exception + FlightData list" where
  "flight_connections_today traffic_time_span_in_days today timestamp icao callback =
     (case days_span_in_timestamps traffic_time_span_in_days today timestamp of
        Inl e \<Rightarrow> Inl e
      | Inr (begin_ts, end_ts) \<Rightarrow>
          (case callback icao begin_ts end_ts of
             Inl e \<Rightarrow> if is_Exception e then Inr [] else Inl e
           | Inr result \<Rightarrow> Inr (or_empty result)))"

text \<open>The body of \<open>get_states_dict\<close>, given the list that \<open>_get_states()\<close> returned:
  \<open>{state.icao24: state for state in states if getattr(state, "icao24", None)}\<close>.\<close>

definition sv_store ::
  "(string, 'f StateVector) py_dict \<Rightarrow> 'f StateVector \<Rightarrow> (string, 'f StateVector) py_dict" where
  "sv_store d state =
     (case sv_icao24 state of
        None \<Rightarrow> d
      | Some k \<Rightarrow> if truthy (sv_icao24 state) then dict_setitem d k state else d)"

definition get_states_dict :: "'f StateVector list \<Rightarrow> (string, 'f StateVector) py_dict" where
  "get_states_dict sts = foldl sv_store [] sts"

text \<open>A state mapping as \<open>get_states_dict\<close> builds it stores every state under the
  state's own identifier.\<close>

definition keyed_by_icao24 :: "(string, 'f StateVector) py_dict \<Rightarrow> bool" where
  "keyed_by_icao24 states_dict = list_all (\<lambda>(k, state). sv_icao24 state = Some k) states_dict"

section \<open>The cache of \<open>get_states_dict\<close>\<close>

text \<open>
  \<open>get_states_dict(self, context=None)\<close> is wrapped by
  \<open>@cached(cache=TTLCache(maxsize=1024, ttl=30))\<close> of the cachetools library.  The
  decorator is given no \<open>key\<close> function, so it uses the library's default,
  \<open>hashkey(*args, **kwargs)\<close>, on every argument of the call: the instance \<open>self\<close> (hashed by
  identity, here its address) and the context when one is passed, positionally or by
  keyword; \<open>get_states_dict()\<close>, \<open>get_states_dict(c)\<close> and \<open>get_states_dict(context=c)\<close> have
  three different keys.  Contexts are taken to be hashable.
\<close>

datatype 'c call_args = No_context | Positional 'c | Keyword 'c

type_synonym 'c cache_key = "nat \<times> 'c call_args"

text \<open>A dictionary object on the heap: its address is its identity.\<close>

record 'f dict_object =
  address :: nat
  contents :: "(string, 'f StateVector) py_dict"

text \<open>
  The \<open>TTLCache\<close>: its items from the least to the most recently used, each with its value
  and the clock reading at which it expires.  Clock readings are those of
  \<open>time.monotonic()\<close>, in seconds.
\<close>

type_synonym ('c, 'f) ttl_cache = "('c cache_key, 'f dict_object \<times> real) py_dict"

definition ttl :: real where
  "ttl = 30"

definition maxsize :: nat where
  "maxsize = 1024"

text \<open>\<open>cache[k]\<close>: the item becomes the most recently used; an item that has expired
  (\<open>not (timer() < expires)\<close>) is a miss.\<close>

definition ttl_getitem ::
  "('c, 'f) ttl_cache \<Rightarrow> real \<Rightarrow> 'c cache_key \<Rightarrow> 'f dict_object option \<times> ('c, 'f) ttl_cache" where
  "ttl_getitem cache now k =
     (case dict_get cache k of
        None \<Rightarrow> (None, cache)
      | Some (v, expires) \<Rightarrow>
          (if now < expires then Some v else None,
           [item\<leftarrow>cache. fst item \<noteq> k] @ [(k, (v, expires))]))"

text \<open>\<open>cache[k] = v\<close>: the expired items are removed; if the key is new, least recently
  used items are removed until there is room for one more; the item is stored as the most
  recently used, to expire \<open>ttl\<close> seconds from now.\<close>

definition ttl_setitem ::
  "('c, 'f) ttl_cache \<Rightarrow> real \<Rightarrow> 'c cache_key \<Rightarrow> 'f dict_object \<Rightarrow> ('c, 'f) ttl_cache" where
  "ttl_setitem cache now k v =
     (let live = [item\<leftarrow>cache. now < snd (snd item)];
          kept = (if dict_contains k live then [item\<leftarrow>live. fst item \<noteq> k]
                  else drop (length live + 1 - maxsize) live)
      in kept @ [(k, (v, now + ttl))])"

text \<open>The state that calls of \<open>get_states_dict\<close> share: the cache and the next free address
  of the heap.\<close>

record ('c, 'f) cache_state =
  cache :: "('c, 'f) ttl_cache"
  next_address :: nat

text \<open>
  A call of the wrapped \<open>get_states_dict\<close> on the instance at address \<open>self\<close>: the clock
  reads \<open>t_lookup\<close> at the lookup and, on a miss, \<open>t_store\<close> when the new dictionary is
  stored; \<open>client_get_states\<close> is what the provider does if it is asked.  On a hit the
  cached object is returned and the provider is not asked; on a miss the body runs,
  builds a new dictionary object and stores it.  An exception that \<open>_get_states\<close> lets
  pass leaves nothing stored.
\<close>

definition cached_get_states_dict ::
  "('c, 'f) cache_state \<Rightarrow> nat \<Rightarrow> 'c call_args \<Rightarrow> real
     \<Rightarrow> py_exception + 'f OpenSkyStates option \<Rightarrow> real
     \<Rightarrow> (py_exception + 'f dict_object) \<times> ('c, 'f) cache_state" where
  "cached_get_states_dict st self args t_lookup client_get_states t_store =
     (let k = (self, args) in
      case ttl_getitem (cache st) t_lookup k of
        (Some v, cache') \<Rightarrow> (Inr v, st\<lparr>cache := cache'\<rparr>)
      | (None, cache') \<Rightarrow>
          (case get_states client_get_states of
             Inl e \<Rightarrow> (Inl e, st\<lparr>cache := cache'\<rparr>)
           | Inr sts \<Rightarrow>
               (let v = \<lparr>address = next_address st, contents = get_states_dict sts\<rparr>
                in (Inr v, \<lparr>cache = ttl_setitem cache' t_store k v,
                            next_address = Suc (next_address st)\<rparr>))))"

text \<open>A call of \<open>get_states_dict\<close>: the instance, the arguments, the clock at the lookup,
  what the provider does if asked, and the clock at the store.  A sequence of calls
  threads the shared state through them.\<close>

record ('c, 'f) call =
  c_self :: nat
  c_args :: "'c call_args"
  c_lookup :: real
  c_provider :: "py_exception + 'f OpenSkyStates option"
  c_store :: real

definition call_step :: "('c, 'f) cache_state \<Rightarrow> ('c, 'f) call \<Rightarrow> ('c, 'f) cache_state" where
  "call_step st c =
     snd (cached_get_states_dict st (c_self c) (c_args c) (c_lookup c) (c_provider c) (c_store c))"

definition calls_run :: "('c, 'f) cache_state \<Rightarrow> ('c, 'f) call list \<Rightarrow> ('c, 'f) cache_state" where
  "calls_run st cs = foldl call_step st cs"

text \<open>Every cached object lies below the next free address: the invariant of the heap
  that makes the object of a miss a new one.\<close>

definition heap_fresh :: "('c, 'f) cache_state \<Rightarrow> bool" where
  "heap_fresh st = list_all (\<lambda>item. address (fst (snd item)) < next_address st) (cache st)"

section \<open>Example data\<close>

text \<open>A tracked aircraft, a departure of it from Frankfurt with no arrival airport, and a
  second connection of the same aircraft.\<close>

abbreviation st_abc :: "int StateVector" where
  "st_abc \<equiv> \<lparr>sv_icao24 = Some ''abc123'', latitude = Some 10, longitude = Some 20,
              last_contact = Some 1000\<rparr>"

abbreviation dep_abc :: FlightData where
  "dep_abc \<equiv> \<lparr>fd_icao24 = Some ''abc123'', estDepartureAirport = Some ''EDDF'',
               estArrivalAirport = None\<rparr>"

abbreviation arr_abc :: FlightData where
  "arr_abc \<equiv> \<lparr>fd_icao24 = Some ''abc123'', estDepartureAirport = Some ''LFPG'',
               estArrivalAirport = Some ''EHAM''\<rparr>"

abbreviation dep_def :: FlightData where
  "dep_def \<equiv> \<lparr>fd_icao24 = Some ''def456'', estDepartureAirport = Some ''EDDF'',
               estArrivalAirport = Some ''LFPG''\<rparr>"

text \<open>Noon of 2026-11-04, and the conversion to seconds since the epoch of a platform
  whose local time is UTC (1970-01-01 has the ordinal 719163).\<close>

abbreviation noon_2026_11_04 :: datetime where
  "noon_2026_11_04 \<equiv> \<lparr>ordinal = 739924, hour = 12, minute = 0, second = 0, microsecond = 0\<rparr>"

definition utc_timestamp :: "datetime \<Rightarrow> py_exception + real" where
  "utc_timestamp dt =
     Inr (real_of_int ((ordinal dt - 719163) * 86400)
          + real (hour dt * 3600 + minute dt * 60 + second dt)
          + real (microsecond dt) / 1000000)"

section \<open>Properties of the dictionaries\<close>

lemma fc_store_keys_distinct: "distinct (map fst d) \<Longrightarrow> distinct (map fst (fc_store d fc))"
  by (simp add: fc_store_def dict_setitem_def distinct_update split: option.splits)

lemma foldl_fc_store_distinct:
  "distinct (map fst d) \<Longrightarrow> distinct (map fst (foldl fc_store d fcs))"
  by (induction fcs arbitrary: d) (simp_all add: fc_store_keys_distinct)

lemma flight_connections_dict_distinct: "distinct (map fst (flight_connections_dict fcs))"
  by (simp add: flight_connections_dict_def foldl_fc_store_distinct)

lemma map_of_fc_store:
  "map_of (fc_store d fc) k =
     (if fd_icao24 fc = Some k \<and> k \<noteq> [] then Some fc else map_of d k)"
  by (auto simp: fc_store_def dict_setitem_def truthy_def update_conv' split: option.splits)

lemma map_of_foldl_fc_store:
  "map_of (foldl fc_store d fcs) k =
     (if [fc\<leftarrow>fcs. fd_icao24 fc = Some k \<and> k \<noteq> []] = [] then map_of d k
      else Some (last [fc\<leftarrow>fcs. fd_icao24 fc = Some k \<and> k \<noteq> []]))"
  by (induction fcs rule: rev_induct) (simp_all add: map_of_fc_store)

lemma filter_update_same: "[q\<leftarrow>AList.update k v ps. fst q \<noteq> k] = [q\<leftarrow>ps. fst q \<noteq> k]"
  by (induction ps) auto

lemma filter_fc_store:
  "[q\<leftarrow>fc_store d fc. fst q \<noteq> k] =
     (if fd_icao24 fc = Some k then [q\<leftarrow>d. fst q \<noteq> k] else fc_store [q\<leftarrow>d. fst q \<noteq> k] fc)"
  by (auto simp: fc_store_def dict_setitem_def truthy_def filter_update_same update_filter
           split: option.splits)

lemma filter_foldl_fc_store:
  "[q\<leftarrow>foldl fc_store d fcs. fst q \<noteq> k] =
     foldl fc_store [q\<leftarrow>d. fst q \<noteq> k] [fc\<leftarrow>fcs. fd_icao24 fc \<noteq> Some k]"
  by (induction fcs rule: rev_induct) (simp_all add: filter_fc_store)

lemma distinct_filter_key:
  "distinct (map fst xs) \<Longrightarrow> map_of xs k = Some v \<Longrightarrow> [p\<leftarrow>xs. fst p = k] = [(k, v)]"
proof (induction xs)
  case Nil
  then show ?case by simp
next
  case (Cons p xs)
  show ?case
  proof (cases "fst p = k")
    case True
    with Cons.prems have "k \<notin> fst ` set xs" and "p = (k, v)" by (auto simp: prod_eq_iff)
    then have "[q\<leftarrow>xs. fst q = k] = []" by (auto simp: filter_empty_conv)
    with True \<open>p = (k, v)\<close> show ?thesis by simp
  next
    case False
    with Cons show ?thesis by simp
  qed
qed

lemma dict_contains_iff_get: "dict_contains k d \<longleftrightarrow> dict_get d k \<noteq> None"
  by (simp add: dict_contains_def dict_get_def map_of_eq_None_iff)

lemma fc_store_falsy: "\<not> truthy (fd_icao24 fc) \<Longrightarrow> fc_store d fc = d"
  by (auto simp: fc_store_def split: option.splits)

lemma sv_store_falsy: "\<not> truthy (sv_icao24 s) \<Longrightarrow> sv_store d s = d"
  by (auto simp: sv_store_def split: option.splits)

lemma flight_connections_dict_skip:
  "\<not> truthy (fd_icao24 fc) \<Longrightarrow>
     flight_connections_dict (xs @ fc # ys) = flight_connections_dict (xs @ ys)"
  by (simp add: flight_connections_dict_def fc_store_falsy)

lemma get_states_dict_skip:
  "\<not> truthy (sv_icao24 s) \<Longrightarrow> get_states_dict (xs @ s # ys) = get_states_dict (xs @ ys)"
  by (simp add: get_states_dict_def sv_store_falsy)

lemma flight_connections_dict_item:
  assumes "(k, fc) \<in> set (flight_connections_dict fcs)"
  shows "k \<noteq> [] \<and> fc = last [c\<leftarrow>fcs. fd_icao24 c = Some k] \<and> fc \<in> set fcs
           \<and> fd_icao24 fc = Some k"
proof -
  let ?cs = "[c\<leftarrow>fcs. fd_icao24 c = Some k \<and> k \<noteq> []]"
  from assms have "map_of (flight_connections_dict fcs) k = Some fc"
    by (simp add: flight_connections_dict_distinct)
  then have ne: "?cs \<noteq> []" and fc: "fc = last ?cs"
    by (simp_all add: flight_connections_dict_def map_of_foldl_fc_store split: if_splits)
  from ne have k: "k \<noteq> []" by (auto simp: filter_empty_conv)
  from ne fc have "fc \<in> set ?cs" using last_in_set by blast
  then have "fc \<in> set fcs" and "fd_icao24 fc = Some k" by simp_all
  moreover from k have "?cs = [c\<leftarrow>fcs. fd_icao24 c = Some k]" by simp
  ultimately show ?thesis using k fc by simp
qed

lemma flight_connections_dict_lookup:
  assumes "c \<in> set fcs" and "fd_icao24 c = Some k" and "k \<noteq> []"
  shows "dict_get (flight_connections_dict fcs) k = Some (last [c'\<leftarrow>fcs. fd_icao24 c' = Some k])"
proof -
  from assms have "[c'\<leftarrow>fcs. fd_icao24 c' = Some k \<and> k \<noteq> []] \<noteq> []"
    by (auto simp: filter_empty_conv)
  with assms(3) show ?thesis
    by (simp add: dict_get_def flight_connections_dict_def map_of_foldl_fc_store)
qed

lemma list_all_update:
  "list_all P d \<Longrightarrow> P (k, v) \<Longrightarrow> list_all P (AList.update k v d)"
  by (induction d) auto

lemma sv_store_keyed: "keyed_by_icao24 d \<Longrightarrow> keyed_by_icao24 (sv_store d s)"
  by (auto simp: keyed_by_icao24_def sv_store_def dict_setitem_def list_all_update
           split: option.splits)

lemma foldl_sv_store_keyed: "keyed_by_icao24 d \<Longrightarrow> keyed_by_icao24 (foldl sv_store d sts)"
  by (induction sts arbitrary: d) (simp_all add: sv_store_keyed)

lemma get_states_dict_keyed: "keyed_by_icao24 (get_states_dict sts)"
  unfolding get_states_dict_def
  by (rule foldl_sv_store_keyed) (simp add: keyed_by_icao24_def)

lemma handler_unfold:
  "flight_connection_handler airport sd h =
     map (\<lambda>p. get_flight_data (dict_get sd (fst p)) (snd p))
       [p\<leftarrow>flight_connections_dict (or_empty (h airport)). dict_contains (fst p) sd]"
  by (simp add: flight_connection_handler_def get_flight_data_args_def
        flight_connections_with_state_def split_def comp_def)

lemma keyed_lookup:
  assumes "keyed_by_icao24 sd" and "dict_contains k sd"
  shows "\<exists>s. dict_get sd k = Some s \<and> sv_icao24 s = Some k"
proof -
  from assms(2) obtain s where s: "dict_get sd k = Some s"
    by (auto simp: dict_contains_iff_get)
  then have "(k, s) \<in> set sd" by (simp add: dict_get_def map_of_SomeD)
  with assms(1) have "sv_icao24 s = Some k"
    by (auto simp: keyed_by_icao24_def list_all_iff)
  with s show ?thesis by blast
qed

lemma keyed_record_icao24:
  assumes "keyed_by_icao24 sd" and "dict_contains k sd"
  shows "r_icao24 (get_flight_data (dict_get sd k) fc) = Some k"
  using keyed_lookup [OF assms] by (auto simp: get_flight_data_def Let_def)

lemma handler_records_matched:
  assumes "keyed_by_icao24 sd" and "r \<in> set (flight_connection_handler airport sd h)"
  shows "\<exists>k. r_icao24 r = Some k \<and> dict_contains k sd \<and>
           (\<exists>fc \<in> set (or_empty (h airport)). fd_icao24 fc = Some k)"
proof -
  from assms(2) obtain p where p: "p \<in> set (flight_connections_dict (or_empty (h airport)))"
    and c: "dict_contains (fst p) sd"
    and r: "r = get_flight_data (dict_get sd (fst p)) (snd p)"
    by (auto simp: handler_unfold)
  from p have "(fst p, snd p) \<in> set (flight_connections_dict (or_empty (h airport)))"
    by simp
  from flight_connections_dict_item [OF this]
  have "snd p \<in> set (or_empty (h airport))" and "fd_icao24 (snd p) = Some (fst p)"
    by blast+
  moreover from r have "r_icao24 r = Some (fst p)"
    using keyed_record_icao24 [OF assms(1) c] by simp
  ultimately show ?thesis using c by blast
qed

lemma handler_no_match:
  assumes "\<forall>fc \<in> set (or_empty (h airport)). \<forall>k. fd_icao24 fc = Some k \<longrightarrow> \<not> dict_contains k sd"
  shows "flight_connection_handler airport sd h = []"
proof -
  have "\<not> dict_contains (fst p) sd"
    if "p \<in> set (flight_connections_dict (or_empty (h airport)))" for p
  proof -
    from that have "(fst p, snd p) \<in> set (flight_connections_dict (or_empty (h airport)))"
      by simp
    from flight_connections_dict_item [OF this]
    have "snd p \<in> set (or_empty (h airport))" and "fd_icao24 (snd p) = Some (fst p)"
      by blast+
    with assms show ?thesis by blast
  qed
  then have "[p\<leftarrow>flight_connections_dict (or_empty (h airport)). dict_contains (fst p) sd] = []"
    by (simp add: filter_empty_conv)
  then show ?thesis by (simp add: handler_unfold)
qed

lemma filter_absent_key:
  assumes "\<not> dict_contains k sd"
  shows "[p\<leftarrow>d. dict_contains (fst p) sd] = [p\<leftarrow>[q\<leftarrow>d. fst q \<noteq> k]. dict_contains (fst p) sd]"
proof -
  have "[p\<leftarrow>[q\<leftarrow>d. fst q \<noteq> k]. dict_contains (fst p) sd]
          = [q\<leftarrow>d. fst q \<noteq> k \<and> dict_contains (fst q) sd]"
    by simp
  also have "\<dots> = [p\<leftarrow>d. dict_contains (fst p) sd]"
    using assms by (intro filter_cong refl) auto
  finally show ?thesis by simp
qed

lemma handler_untracked_connection:
  assumes "\<forall>k. fd_icao24 fc = Some k \<longrightarrow> \<not> dict_contains k sd"
  shows "flight_connection_handler airport sd (\<lambda>a. Some (xs @ fc # ys)) =
         flight_connection_handler airport sd (\<lambda>a. Some (xs @ ys))"
proof (cases "fd_icao24 fc")
  case None
  then show ?thesis
    by (simp add: handler_unfold or_empty_def flight_connections_dict_skip truthy_def)
next
  case (Some k)
  with assms have nk: "\<not> dict_contains k sd" by simp
  have eq: "[q\<leftarrow>flight_connections_dict (xs @ fc # ys). fst q \<noteq> k]
          = [q\<leftarrow>flight_connections_dict (xs @ ys). fst q \<noteq> k]"
    unfolding flight_connections_dict_def filter_foldl_fc_store using Some by simp
  have "[p\<leftarrow>flight_connections_dict (xs @ fc # ys). dict_contains (fst p) sd]
          = [p\<leftarrow>[q\<leftarrow>flight_connections_dict (xs @ fc # ys). fst q \<noteq> k]. dict_contains (fst p) sd]"
    by (rule filter_absent_key [OF nk])
  also have "\<dots> = [p\<leftarrow>[q\<leftarrow>flight_connections_dict (xs @ ys). fst q \<noteq> k]. dict_contains (fst p) sd]"
    by (simp only: eq)
  also have "\<dots> = [p\<leftarrow>flight_connections_dict (xs @ ys). dict_contains (fst p) sd]"
    by (rule filter_absent_key [OF nk, symmetric])
  finally show ?thesis by (simp add: handler_unfold or_empty_def)
qed

lemma flight_connections_dict_one_item:
  assumes "fc \<in> set fcs" and "fd_icao24 fc = Some k" and "k \<noteq> []"
  shows "[p\<leftarrow>flight_connections_dict fcs. fst p = k]
           = [(k, last [c\<leftarrow>fcs. fd_icao24 c = Some k])]"
proof -
  have "map_of (flight_connections_dict fcs) k = Some (last [c\<leftarrow>fcs. fd_icao24 c = Some k])"
    using flight_connections_dict_lookup [OF assms] by (simp add: dict_get_def)
  then show ?thesis
    by (rule distinct_filter_key [OF flight_connections_dict_distinct])
qed

lemma records_of_identifier:
  assumes keyed: "keyed_by_icao24 sd"
  shows "[r\<leftarrow>map (\<lambda>p. get_flight_data (dict_get sd (fst p)) (snd p))
              [p\<leftarrow>d. dict_contains (fst p) sd]. r_icao24 r = Some k]
       = map (\<lambda>p. get_flight_data (dict_get sd (fst p)) (snd p))
           [p\<leftarrow>[p\<leftarrow>d. fst p = k]. dict_contains (fst p) sd]"
proof (induction d)
  case Nil
  show ?case by simp
next
  case (Cons p d)
  show ?case
  proof (cases "dict_contains (fst p) sd")
    case True
    then have "r_icao24 (get_flight_data (dict_get sd (fst p)) (snd p)) = Some (fst p)"
      by (rule keyed_record_icao24 [OF keyed])
    with True Cons show ?thesis by auto
  next
    case False
    with Cons show ?thesis by auto
  qed
qed

lemma handler_one_record:
  assumes keyed: "keyed_by_icao24 sd" and fc: "fc \<in> set fcs" and id: "fd_icao24 fc = Some k"
    and ne: "k \<noteq> []" and tracked: "dict_contains k sd"
  shows "[r\<leftarrow>flight_connection_handler airport sd (\<lambda>a. Some fcs). r_icao24 r = Some k]
         = [get_flight_data (dict_get sd k) (last [c\<leftarrow>fcs. fd_icao24 c = Some k])]"
  unfolding handler_unfold or_empty_def option.case records_of_identifier [OF keyed]
    flight_connections_dict_one_item [OF fc id ne]
  using tracked by simp

subsection \<open>The cache\<close>

lemma map_of_filter_other: "map_of [item\<leftarrow>c. fst item \<noteq> k] k = None"
  by (induction c) auto

lemma map_of_snoc_absent: "map_of xs k = None \<Longrightarrow> map_of (xs @ [(k, v)]) k = Some v"
  by (simp add: map_add_def)

lemma ttl_getitem_hit:
  assumes "dict_get c k = Some (v, expires)" and "now < expires"
  shows "\<exists>c'. ttl_getitem c now k = (Some v, c') \<and> dict_get c' k = Some (v, expires)"
  using assms
  by (simp add: ttl_getitem_def dict_get_def map_of_snoc_absent map_of_filter_other
        del: map_of_append)

lemma ttl_getitem_Some:
  assumes "ttl_getitem c now k = (Some v, c')"
  shows "\<exists>expires. now < expires \<and> dict_get c' k = Some (v, expires)"
  using assms
  by (auto simp: ttl_getitem_def dict_get_def map_of_snoc_absent map_of_filter_other
        simp del: map_of_append split: option.splits if_splits)

lemma ttl_setitem_stored: "dict_get (ttl_setitem c now k v) k = Some (v, now + ttl)"
proof -
  define live where "live = [item\<leftarrow>c. now < snd (snd item)]"
  define kept where "kept = (if dict_contains k live then [item\<leftarrow>live. fst item \<noteq> k]
                  else drop (length live + 1 - maxsize) live)"
  have "map_of kept k = None"
  proof (cases "dict_contains k live")
    case True
    then show ?thesis by (simp add: kept_def map_of_filter_other)
  next
    case False
    then have "k \<notin> fst ` set (drop (length live + 1 - maxsize) live)"
      using set_drop_subset [of "length live + 1 - maxsize" live]
      by (auto simp: dict_contains_def)
    with False show ?thesis by (simp add: kept_def map_of_eq_None_iff)
  qed
  then have "map_of (kept @ [(k, (v, now + ttl))]) k = Some (v, now + ttl)"
    by (rule map_of_snoc_absent)
  moreover have "ttl_setitem c now k v = kept @ [(k, (v, now + ttl))]"
    by (simp only: ttl_setitem_def Let_def live_def kept_def)
  ultimately show ?thesis by (simp only: dict_get_def)
qed

lemma cached_call_result:
  assumes "cached_get_states_dict st self args t p t' = (Inr v, st')"
  shows "\<exists>expires. dict_get (cache st') (self, args) = Some (v, expires) \<and>
           (fst (ttl_getitem (cache st) t (self, args)) = None \<longrightarrow> expires = t' + ttl) \<and>
           (fst (ttl_getitem (cache st) t (self, args)) \<noteq> None \<longrightarrow> t < expires)"
proof (cases "ttl_getitem (cache st) t (self, args)")
  case (Pair hit c')
  show ?thesis
  proof (cases hit)
    case None
    with Pair assms show ?thesis
      by (auto simp: cached_get_states_dict_def Let_def ttl_setitem_stored split: sum.splits)
  next
    case (Some w)
    with Pair assms have "w = v" and "cache st' = c'"
      by (auto simp: cached_get_states_dict_def)
    with Pair Some ttl_getitem_Some [of "cache st" t "(self, args)" v c'] show ?thesis
      by auto
  qed
qed

lemma cached_call_hit:
  assumes "dict_get (cache st) (self, args) = Some (v, expires)" and "t < expires"
  shows "fst (cached_get_states_dict st self args t p t') = Inr v
         \<and> dict_get (cache (snd (cached_get_states_dict st self args t p t'))) (self, args)
             = Some (v, expires)"
  using ttl_getitem_hit [OF assms] by (auto simp: cached_get_states_dict_def)

lemma cached_call_miss:
  assumes "dict_get (cache st) (self, args) = None"
  shows "fst (cached_get_states_dict st self args t (Inr (Some \<lparr>states = Some sts\<rparr>)) t')
        = Inr \<lparr>address = next_address st, contents = get_states_dict sts\<rparr>"
proof -
  from assms have "ttl_getitem (cache st) t (self, args) = (None, cache st)"
    by (simp add: ttl_getitem_def)
  moreover have "get_states (Inr (Some \<lparr>states = Some sts\<rparr>)) = Inr sts"
    by (simp add: get_states_def or_empty_def)
  ultimately show ?thesis
    by (simp add: cached_get_states_dict_def Let_def)
qed

lemma map_of_filter_neq: "k \<noteq> k' \<Longrightarrow> map_of [item\<leftarrow>c. fst item \<noteq> k'] k = map_of c k"
  by (induction c) auto

lemma map_of_filter_Some:
  "map_of c k = Some y \<Longrightarrow> P (k, y) \<Longrightarrow> map_of (filter P c) k = Some y"
  by (induction c) (auto split: if_splits)

lemma map_of_append_Some: "map_of xs k = Some y \<Longrightarrow> map_of (xs @ ys) k = Some y"
  by (simp add: map_add_def)

lemma length_filter_key: "map_of c k = Some x \<Longrightarrow> length [item\<leftarrow>c. fst item \<noteq> k] < length c"
proof -
  assume "map_of c k = Some x"
  then have "(k, x) \<in> set c" by (rule map_of_SomeD)
  then show ?thesis by (intro length_filter_less [of "(k, x)"]) simp_all
qed

lemma ttl_getitem_keeps:
  assumes "dict_get c k = Some (v, e)"
  shows "dict_get (snd (ttl_getitem c t k')) k = Some (v, e)"
proof (cases "dict_get c k'")
  case None
  with assms show ?thesis by (simp add: ttl_getitem_def)
next
  case (Some x)
  obtain w e' where x: "x = (w, e')" by (cases x)
  show ?thesis
  proof (cases "k' = k")
    case True
    with Some x assms show ?thesis
      by (simp add: ttl_getitem_def dict_get_def map_of_snoc_absent map_of_filter_other
            del: map_of_append)
  next
    case False
    then have "map_of [item\<leftarrow>c. fst item \<noteq> k'] k = Some (v, e)"
      using assms by (simp add: map_of_filter_neq dict_get_def)
    then have "map_of ([item\<leftarrow>c. fst item \<noteq> k'] @ [(k', (w, e'))]) k = Some (v, e)"
      by (rule map_of_append_Some)
    with Some x show ?thesis by (simp add: ttl_getitem_def dict_get_def del: map_of_append)
  qed
qed

lemma ttl_getitem_length: "length (snd (ttl_getitem c t k')) \<le> length c"
proof (cases "dict_get c k'")
  case None
  then show ?thesis by (simp add: ttl_getitem_def)
next
  case (Some x)
  obtain w e' where x: "x = (w, e')" by (cases x)
  from Some have "length [item\<leftarrow>c. fst item \<noteq> k'] < length c"
    by (simp add: dict_get_def length_filter_key)
  with Some x show ?thesis by (simp add: ttl_getitem_def)
qed

lemma ttl_setitem_keeps:
  assumes "dict_get c k = Some (v, e)" and "t < e" and "k' \<noteq> k" and "length c < maxsize"
  shows "dict_get (ttl_setitem c t k' w) k = Some (v, e)"
proof -
  define live where "live = [item\<leftarrow>c. t < snd (snd item)]"
  define kept where "kept = (if dict_contains k' live then [item\<leftarrow>live. fst item \<noteq> k']
                  else drop (length live + 1 - maxsize) live)"
  have live: "map_of live k = Some (v, e)"
    unfolding live_def using assms(1,2) by (intro map_of_filter_Some) (simp_all add: dict_get_def)
  have "length live \<le> length c" by (simp add: live_def)
  with assms(4) have "length live + 1 - maxsize = 0" by simp
  then have "kept = (if dict_contains k' live then [item\<leftarrow>live. fst item \<noteq> k'] else live)"
    by (simp add: kept_def)
  with live assms(3) have "map_of kept k = Some (v, e)"
    by (simp add: map_of_filter_neq)
  then have "map_of (kept @ [(k', (w, t + ttl))]) k = Some (v, e)"
    by (rule map_of_append_Some)
  moreover have "ttl_setitem c t k' w = kept @ [(k', (w, t + ttl))]"
    by (simp only: ttl_setitem_def Let_def live_def kept_def)
  ultimately show ?thesis by (simp only: dict_get_def)
qed

lemma ttl_setitem_length: "length (ttl_setitem c t k' w) \<le> length c + 1"
proof -
  define live where "live = [item\<leftarrow>c. t < snd (snd item)]"
  define kept where "kept = (if dict_contains k' live then [item\<leftarrow>live. fst item \<noteq> k']
                  else drop (length live + 1 - maxsize) live)"
  have "length live \<le> length c" by (simp add: live_def)
  moreover have "length kept \<le> length live" by (simp add: kept_def)
  moreover have "ttl_setitem c t k' w = kept @ [(k', (w, t + ttl))]"
    by (simp only: ttl_setitem_def Let_def live_def kept_def)
  ultimately show ?thesis by simp
qed

lemma cached_unfold:
  "cached_get_states_dict st self args t p t' =
     (case fst (ttl_getitem (cache st) t (self, args)) of
        Some v \<Rightarrow> (Inr v, st\<lparr>cache := snd (ttl_getitem (cache st) t (self, args))\<rparr>)
      | None \<Rightarrow>
          (case get_states p of
             Inl e \<Rightarrow> (Inl e, st\<lparr>cache := snd (ttl_getitem (cache st) t (self, args))\<rparr>)
           | Inr sts \<Rightarrow>
               (Inr \<lparr>address = next_address st, contents = get_states_dict sts\<rparr>,
                \<lparr>cache = ttl_setitem (snd (ttl_getitem (cache st) t (self, args))) t' (self, args)
                           \<lparr>address = next_address st, contents = get_states_dict sts\<rparr>,
                 next_address = Suc (next_address st)\<rparr>)))"
  by (simp add: cached_get_states_dict_def Let_def split: prod.splits option.splits sum.splits)

lemma call_keeps_entry:
  assumes e: "dict_get (cache st) k = Some (v, e)" and lookup: "t < e" and store: "t' < e"
    and len: "length (cache st) < maxsize"
  shows "dict_get (cache (snd (cached_get_states_dict st self args t p t'))) k = Some (v, e)
         \<and> length (cache (snd (cached_get_states_dict st self args t p t')))
             \<le> length (cache st) + 1"
proof -
  let ?g = "ttl_getitem (cache st) t (self, args)"
  have g1: "dict_get (snd ?g) k = Some (v, e)" using e by (rule ttl_getitem_keeps)
  have g2: "length (snd ?g) \<le> length (cache st)" by (rule ttl_getitem_length)
  show ?thesis
  proof (cases "fst ?g")
    case (Some x)
    with g1 g2 show ?thesis by (simp add: cached_unfold)
  next
    case None
    have neq: "(self, args) \<noteq> k"
    proof
      assume "(self, args) = k"
      with ttl_getitem_hit [OF e lookup] None show False by auto
    qed
    show ?thesis
    proof (cases "get_states p")
      case (Inl x)
      with None g1 g2 show ?thesis by (simp add: cached_unfold)
    next
      case (Inr sts)
      let ?w = "\<lparr>address = next_address st, contents = get_states_dict sts\<rparr>"
      from g2 len have "length (snd ?g) < maxsize" by simp
      from ttl_setitem_keeps [OF g1 store neq this]
      have "dict_get (ttl_setitem (snd ?g) t' (self, args) ?w) k = Some (v, e)" .
      moreover have "length (ttl_setitem (snd ?g) t' (self, args) ?w) \<le> length (cache st) + 1"
        using ttl_setitem_length [of "snd ?g" t' "(self, args)" ?w] g2 by simp
      ultimately show ?thesis using None Inr by (simp add: cached_unfold)
    qed
  qed
qed

lemma calls_run_keeps_entry:
  assumes "dict_get (cache st) k = Some (v, e)"
    and "list_all (\<lambda>c. c_lookup c < e \<and> c_store c < e) cs"
    and "length (cache st) + length cs \<le> maxsize"
  shows "dict_get (cache (calls_run st cs)) k = Some (v, e)"
  using assms
proof (induction cs arbitrary: st)
  case Nil
  then show ?case by (simp add: calls_run_def)
next
  case (Cons c cs)
  from Cons.prems have len: "length (cache st) < maxsize"
    and times: "c_lookup c < e" "c_store c < e"
    and rest: "list_all (\<lambda>c. c_lookup c < e \<and> c_store c < e) cs"
    by simp_all
  from call_keeps_entry [OF Cons.prems(1) times len, of "c_self c" "c_args c" "c_provider c"]
  have 1: "dict_get (cache (call_step st c)) k = Some (v, e)"
    and 2: "length (cache (call_step st c)) \<le> length (cache st) + 1"
    by (simp_all add: call_step_def)
  from 2 Cons.prems(3) have "length (cache (call_step st c)) + length cs \<le> maxsize" by simp
  from Cons.IH [OF 1 rest this] show ?case by (simp add: calls_run_def)
qed

lemma ttl_getitem_list_all:
  assumes "list_all P c"
  shows "list_all P (snd (ttl_getitem c t k))"
proof (cases "dict_get c k")
  case None
  with assms show ?thesis by (simp add: ttl_getitem_def)
next
  case (Some x)
  obtain w e where x: "x = (w, e)" by (cases x)
  from Some x have "(k, (w, e)) \<in> set c" by (simp add: dict_get_def map_of_SomeD)
  with assms have "P (k, (w, e))" by (simp add: list_all_iff)
  with assms Some x show ?thesis by (simp add: ttl_getitem_def list_all_iff)
qed

lemma ttl_setitem_list_all:
  assumes "list_all P c" and "P (k, (w, t + ttl))"
  shows "list_all P (ttl_setitem c t k w)"
proof -
  define live where "live = [item\<leftarrow>c. t < snd (snd item)]"
  define kept where "kept = (if dict_contains k live then [item\<leftarrow>live. fst item \<noteq> k]
                  else drop (length live + 1 - maxsize) live)"
  have "set kept \<subseteq> set live"
    using set_drop_subset [of "length live + 1 - maxsize" live] by (auto simp: kept_def)
  moreover have "set live \<subseteq> set c" by (auto simp: live_def)
  ultimately have "list_all P kept" using assms(1) by (auto simp: list_all_iff)
  moreover have "ttl_setitem c t k w = kept @ [(k, (w, t + ttl))]"
    by (simp only: ttl_setitem_def Let_def live_def kept_def)
  ultimately show ?thesis using assms(2) by simp
qed

lemma heap_fresh_empty: "heap_fresh \<lparr>cache = [], next_address = a\<rparr>"
  by (simp add: heap_fresh_def)

lemma call_heap_fresh:
  assumes "heap_fresh st"
  shows "heap_fresh (snd (cached_get_states_dict st self args t p t'))
         \<and> next_address st \<le> next_address (snd (cached_get_states_dict st self args t p t'))"
proof -
  let ?g = "ttl_getitem (cache st) t (self, args)"
  let ?P = "\<lambda>item. address (fst (snd item)) < next_address st"
  let ?Q = "\<lambda>item. address (fst (snd item)) < Suc (next_address st)"
  from assms have g: "list_all ?P (snd ?g)"
    unfolding heap_fresh_def by (rule ttl_getitem_list_all)
  then have gQ: "list_all ?Q (snd ?g)" by (auto simp: list_all_iff)
  show ?thesis
  proof (cases "fst ?g")
    case (Some x)
    with g show ?thesis by (simp add: cached_unfold heap_fresh_def)
  next
    case None
    show ?thesis
    proof (cases "get_states p")
      case (Inl x)
      with None g show ?thesis by (simp add: cached_unfold heap_fresh_def)
    next
      case (Inr sts)
      let ?w = "\<lparr>address = next_address st, contents = get_states_dict sts\<rparr>"
      have "list_all ?Q (ttl_setitem (snd ?g) t' (self, args) ?w)"
        using gQ by (rule ttl_setitem_list_all) simp
      with None Inr show ?thesis by (simp add: cached_unfold heap_fresh_def)
    qed
  qed
qed

lemma calls_run_heap_fresh:
  "heap_fresh st \<Longrightarrow>
     heap_fresh (calls_run st cs) \<and> next_address st \<le> next_address (calls_run st cs)"
proof (induction cs arbitrary: st)
  case Nil
  then show ?case by (simp add: calls_run_def)
next
  case (Cons c cs)
  from call_heap_fresh [OF Cons.prems, of "c_self c" "c_args c" "c_lookup c" "c_provider c" "c_store c"]
  have 1: "heap_fresh (call_step st c)" and 2: "next_address st \<le> next_address (call_step st c)"
    by (simp_all add: call_step_def)
  from Cons.IH [OF 1] 2 show ?case by (simp add: calls_run_def)
qed

lemma heap_fresh_entry:
  assumes "heap_fresh st" and "dict_get (cache st) k = Some (v, e)"
  shows "address v < next_address st"
proof -
  from assms(2) have "(k, (v, e)) \<in> set (cache st)" by (simp add: dict_get_def map_of_SomeD)
  with assms(1) show ?thesis by (auto simp: heap_fresh_def list_all_iff)
qed

section \<open>The claims\<close>

text \<open>
  C1.  The state mapping of the join is the one \<open>get_states_dict\<close> builds from the list
  of states the provider returned.  For every such mapping and every list of flight
  connections, every record produced by \<open>_flight_connection_handler\<close> has an identifier
  that is a key of the state mapping and the identifier of a connection of the list.
  If no connection's identifier is a key of the state mapping the output is the empty
  list, and a connection whose identifier is not a key of the state mapping contributes
  no record: the output is what it is without that connection.  The last two hold of
  every state mapping.
\<close>

theorem join_only_matching_identifiers:
  "(\<forall>r \<in> set (flight_connection_handler airport (get_states_dict sts) h).
       \<exists>k. r_icao24 r = Some k \<and> dict_contains k (get_states_dict sts) \<and>
         (\<exists>fc \<in> set (or_empty (h airport)). fd_icao24 fc = Some k))
   \<and> ((\<forall>fc \<in> set (or_empty (h airport)). \<forall>k. fd_icao24 fc = Some k \<longrightarrow>
          \<not> dict_contains k states_dict) \<longrightarrow>
        flight_connection_handler airport states_dict h = [])
   \<and> ((\<forall>k. fd_icao24 fc = Some k \<longrightarrow> \<not> dict_contains k states_dict) \<longrightarrow>
        flight_connection_handler airport states_dict (\<lambda>a. Some (xs @ fc # ys)) =
        flight_connection_handler airport states_dict (\<lambda>a. Some (xs @ ys)))"
  using handler_records_matched [OF get_states_dict_keyed] handler_no_match
    handler_untracked_connection
  by blast

theorem join_only_matching_identifiers_witness:
  "get_states_dict [st_abc] = [(''abc123'', st_abc)]
   \<and> flight_connection_handler ''EDDF'' (get_states_dict [st_abc]) (\<lambda>a. Some [dep_abc, dep_def])
     = [\<lparr>r_icao24 = Some ''abc123'', r_lat = Some 10, r_lng = Some 20, r_from = ''EDDF'',
       r_to = ''Unknown airport'', r_last_contact = Some 1000\<rparr>]
   \<and> dict_contains ''abc123'' (get_states_dict [st_abc])
   \<and> flight_connection_handler ''EDDF'' (get_states_dict [st_abc]) (\<lambda>a. Some [dep_def]) = []
   \<and> flight_connection_handler ''EDDF'' (get_states_dict [st_abc]) (\<lambda>a. Some [dep_abc, dep_def])
     = flight_connection_handler ''EDDF'' (get_states_dict [st_abc]) (\<lambda>a. Some [dep_abc])"
  using join_only_matching_identifiers [where states_dict = "get_states_dict [st_abc]"
      and airport = "''EDDF''" and h = "\<lambda>a. Some [dep_abc, dep_def]" and fc = dep_def
      and xs = "[dep_abc]" and ys = "[]" and sts = "[st_abc]"]
    join_only_matching_identifiers [where states_dict = "get_states_dict [st_abc]"
      and airport = "''EDDF''" and h = "\<lambda>a. Some [dep_def]" and fc = dep_def
      and xs = "[dep_abc]" and ys = "[]" and sts = "[st_abc]"]
  by (simp add: flight_connection_handler_def get_flight_data_args_def
        flight_connections_with_state_def flight_connections_dict_def fc_store_def
        dict_setitem_def dict_get_def dict_contains_def truthy_def or_empty_def
        or_default_def get_flight_data_def get_states_dict_def sv_store_def)

text \<open>
  C2.  The defensive branch of \<open>_get_flight_data\<close> (\<open>state is None\<close>) is never taken from
  \<open>_flight_connection_handler\<close>: for every state mapping and every list of flight
  connections, each call that the handler makes passes a state that is not \<open>None\<close>,
  because the filter before it keeps only the identifiers that are keys of the mapping.
\<close>

theorem defensive_branch_unreachable:
  "\<forall>(state, fc) \<in> set (get_flight_data_args states_dict flight_connections). state \<noteq> None"
  by (auto simp: get_flight_data_args_def flight_connections_with_state_def
        dict_contains_iff_get)

theorem defensive_branch_unreachable_witness:
  "get_flight_data_args [(''abc123'', st_abc)] [dep_abc] = [(Some st_abc, dep_abc)]
   \<and> list_all (\<lambda>(state, fc). state \<noteq> None)
         (get_flight_data_args [(''abc123'', st_abc)] [dep_abc])"
  using defensive_branch_unreachable [of "[(''abc123'', st_abc)]" "[dep_abc]"]
  by (simp add: get_flight_data_args_def flight_connections_with_state_def
        flight_connections_dict_def fc_store_def dict_setitem_def dict_get_def
        dict_contains_def truthy_def)

text \<open>
  C3, as the code has it.  With a look-back span of ten million days the day that many
  days before 2026-11-04 is no date Python can represent: the subtraction raises
  \<open>OverflowError\<close> and no window is returned.
\<close>

theorem days_span_overflow_counterexample:
  "days_span_in_timestamps 10000000 noon_2026_11_04 utc_timestamp
     = Inl (PyException True ''OverflowError'')"
  by (simp add: days_span_in_timestamps_def timedelta_def datetime_sub_def
        MAXORDINAL_def OverflowError_def)

text \<open>
  C3, amended.  For every look-back span of N days of magnitude at most 999999999 and
  every call time such that the day N days before the current day is a date Python can
  represent (ordinal 1 to 3652059), if the platform converts 00:00:00.000000 of that day
  to the timestamp \<open>start_ts\<close> and 23:59:59.999999 of the current day to the timestamp
  \<open>end_ts\<close>, the window returned is the pair of \<open>start_ts\<close> and \<open>end_ts\<close>, each
  converted to an integer; it is computed from the current day of the call.  An exception
  of either conversion is raised by the property.  For every other span and call time
  \<open>OverflowError\<close> is raised.
\<close>

theorem days_span_in_timestamps_window:
  "(\<bar>N\<bar> \<le> 999999999 \<and> 0 < ordinal today - N \<and> ordinal today - N \<le> 3652059 \<and>
     timestamp \<lparr>ordinal = ordinal today - N, hour = 0, minute = 0, second = 0,
                microsecond = 0\<rparr> = Inr start_ts \<and>
     timestamp \<lparr>ordinal = ordinal today, hour = 23, minute = 59, second = 59,
                microsecond = 999999\<rparr> = Inr end_ts
     \<longrightarrow> days_span_in_timestamps N today timestamp = Inr (py_int start_ts, py_int end_ts))
   \<and> (\<bar>N\<bar> \<le> 999999999 \<and> 0 < ordinal today - N \<and> ordinal today - N \<le> 3652059 \<and>
     timestamp \<lparr>ordinal = ordinal today - N, hour = 0, minute = 0, second = 0,
                microsecond = 0\<rparr> = Inl e
     \<longrightarrow> days_span_in_timestamps N today timestamp = Inl e)
   \<and> (\<bar>N\<bar> \<le> 999999999 \<and> 0 < ordinal today - N \<and> ordinal today - N \<le> 3652059 \<and>
     timestamp \<lparr>ordinal = ordinal today - N, hour = 0, minute = 0, second = 0,
                microsecond = 0\<rparr> = Inr start_ts \<and>
     timestamp \<lparr>ordinal = ordinal today, hour = 23, minute = 59, second = 59,
                microsecond = 999999\<rparr> = Inl e
     \<longrightarrow> days_span_in_timestamps N today timestamp = Inl e)
   \<and> (\<not> (\<bar>N\<bar> \<le> 999999999 \<and> 0 < ordinal today - N \<and> ordinal today - N \<le> 3652059)
     \<longrightarrow> days_span_in_timestamps N today timestamp = Inl OverflowError)"
  by (cases today)
     (auto simp: days_span_in_timestamps_def timedelta_def datetime_sub_def MAXORDINAL_def
        Let_def)

theorem days_span_in_timestamps_window_witness:
  "days_span_in_timestamps 1 noon_2026_11_04 utc_timestamp = Inr (1793664000, 1793836799)
   \<and> days_span_in_timestamps 1
        \<lparr>ordinal = 739925, hour = 0, minute = 30, second = 0, microsecond = 0\<rparr> utc_timestamp
      = Inr (1793750400, 1793923199)"
  using
    days_span_in_timestamps_window [where N = 1 and today = noon_2026_11_04
      and timestamp = utc_timestamp and start_ts = 1793664000
      and end_ts = "1793836799 + 999999 / 1000000"]
    days_span_in_timestamps_window [where N = 1
      and today = "\<lparr>ordinal = 739925, hour = 0, minute = 30, second = 0, microsecond = 0\<rparr>"
      and timestamp = utc_timestamp and start_ts = 1793750400
      and end_ts = "1793923199 + 999999 / 1000000"]
  by (simp add: utc_timestamp_def py_int_def)

text \<open>
  C4, as the code has it.  The handlers are \<open>except Exception\<close> clauses: an exception of
  the provider call that is not an instance of \<open>Exception\<close>, such as a
  \<open>KeyboardInterrupt\<close> during the request, reaches the caller of both operations.  And
  \<open>_flight_connections_today\<close> computes the time window before its \<open>try\<close>: with a span
  of ten million days the \<open>OverflowError\<close> of that computation reaches the caller, whatever
  the provider would have done.
\<close>

theorem retrieval_propagates_counterexample:
  "get_states (Inl (PyException False ''KeyboardInterrupt'')
       :: py_exception + int OpenSkyStates option)
     = Inl (PyException False ''KeyboardInterrupt'')
   \<and> flight_connections_today 1 noon_2026_11_04 utc_timestamp ''EDDF''
       (\<lambda>icao begin_ts end_ts. Inl (PyException False ''KeyboardInterrupt''))
     = Inl (PyException False ''KeyboardInterrupt'')
   \<and> flight_connections_today 10000000 noon_2026_11_04 utc_timestamp ''EDDF''
       (\<lambda>icao begin_ts end_ts. Inr (Some []))
     = Inl (PyException True ''OverflowError'')"
  by (simp add: get_states_def flight_connections_today_def days_span_in_timestamps_def
        timedelta_def datetime_sub_def MAXORDINAL_def OverflowError_def utc_timestamp_def)

text \<open>
  C4, amended.  \<open>_get_states\<close>, and \<open>_flight_connections_today\<close> once its time window is
  computed, propagate no exception and return a list for every behaviour of the provider
  call that is raising an instance of \<open>Exception\<close> or returning; the list is empty when
  the call raised an instance of \<open>Exception\<close>, returned \<open>None\<close>, returned an object whose
  states are \<open>None\<close> or empty, or returned an empty list, so that a failed fetch and an
  empty result are the same value.  An exception of the provider call that is not an
  instance of \<open>Exception\<close> passes through both operations, and an exception raised while
  \<open>_flight_connections_today\<close> computes the time window reaches its caller whatever the
  provider call would do.
\<close>

theorem retrieval_failures_give_empty_list:
  "((\<forall>e. r = Inl e \<longrightarrow> is_Exception e) \<longrightarrow>
      (\<exists>result :: 'f StateVector list. get_states r = Inr result))
   \<and> (is_Exception e \<longrightarrow> get_states (Inl e) = (Inr [] :: py_exception + 'f StateVector list))
   \<and> (\<not> is_Exception e \<longrightarrow>
        get_states (Inl e) = (Inl e :: py_exception + 'f StateVector list))
   \<and> get_states (Inr None) = (Inr [] :: py_exception + 'f StateVector list)
   \<and> get_states (Inr (Some \<lparr>states = None\<rparr>)) = (Inr [] :: py_exception + 'f StateVector list)
   \<and> get_states (Inr (Some \<lparr>states = Some []\<rparr>))
       = (Inr [] :: py_exception + 'f StateVector list)
   \<and> (days_span_in_timestamps N today timestamp = Inr (begin_ts, end_ts) \<longrightarrow>
        ((\<forall>e. callback icao begin_ts end_ts = Inl e \<longrightarrow> is_Exception e) \<longrightarrow>
           (\<exists>result. flight_connections_today N today timestamp icao callback = Inr result))
        \<and> (callback icao begin_ts end_ts = Inl e \<and> is_Exception e \<longrightarrow>
             flight_connections_today N today timestamp icao callback = Inr [])
        \<and> (callback icao begin_ts end_ts = Inl e \<and> \<not> is_Exception e \<longrightarrow>
             flight_connections_today N today timestamp icao callback = Inl e)
        \<and> (callback icao begin_ts end_ts = Inr None \<longrightarrow>
             flight_connections_today N today timestamp icao callback = Inr [])
        \<and> (callback icao begin_ts end_ts = Inr (Some []) \<longrightarrow>
             flight_connections_today N today timestamp icao callback = Inr []))
   \<and> (days_span_in_timestamps N today timestamp = Inl e \<longrightarrow>
        flight_connections_today N today timestamp icao callback = Inl e)"
  by (auto simp: get_states_def flight_connections_today_def or_empty_def
        split: sum.splits option.splits)

theorem retrieval_failures_give_empty_list_witness:
  "is_Exception (PyException True ''ConnectionError'')
   \<and> days_span_in_timestamps 1 noon_2026_11_04 utc_timestamp = Inr (1793664000, 1793836799)
   \<and> get_states (Inl (PyException True ''ConnectionError'')
       :: py_exception + int OpenSkyStates option) = Inr []
   \<and> flight_connections_today 1 noon_2026_11_04 utc_timestamp ''EDDF''
       (\<lambda>icao begin_ts end_ts. Inl (PyException True ''ConnectionError'')) = Inr []
   \<and> flight_connections_today 1 noon_2026_11_04 utc_timestamp ''EDDF''
       (\<lambda>icao begin_ts end_ts. Inr None) = Inr []"
proof -
  have w: "days_span_in_timestamps 1 noon_2026_11_04 utc_timestamp
      = Inr (1793664000, 1793836799)"
    by (simp add: days_span_in_timestamps_def timedelta_def datetime_sub_def MAXORDINAL_def
          utc_timestamp_def py_int_def)
  from w
    retrieval_failures_give_empty_list [where e = "PyException True ''ConnectionError''"
      and r = "Inl (PyException True ''ConnectionError'') :: py_exception + int OpenSkyStates option"
      and callback = "\<lambda>icao begin_ts end_ts. Inl (PyException True ''ConnectionError'')"
      and icao = "''EDDF''" and N = 1 and today = noon_2026_11_04
      and timestamp = utc_timestamp and begin_ts = 1793664000 and end_ts = 1793836799]
    retrieval_failures_give_empty_list [where e = "PyException True ''ConnectionError''"
      and r = "Inl (PyException True ''ConnectionError'') :: py_exception + int OpenSkyStates option"
      and callback = "\<lambda>icao begin_ts end_ts. Inr None"
      and icao = "''EDDF''" and N = 1 and today = noon_2026_11_04
      and timestamp = utc_timestamp and begin_ts = 1793664000 and end_ts = 1793836799]
  show ?thesis by simp
qed

text \<open>
  C5, as the code has it.  The cache key is made of the arguments of the call.  A first
  call without context stores its dictionary (clock 0 at the lookup, 1 at the store); a
  second call two seconds after the first, on the same instance but with a context,
  misses: it asks the provider again and returns another dictionary object, here with
  other contents.
\<close>

theorem cache_context_counterexample:
  "fst (cached_get_states_dict \<lparr>cache = [], next_address = 0\<rparr> 1 No_context 0
          (Inr (Some \<lparr>states = Some [st_abc]\<rparr>)) 1)
     = Inr \<lparr>address = 0, contents = [(''abc123'', st_abc)]\<rparr>
   \<and> fst (cached_get_states_dict
          (snd (cached_get_states_dict \<lparr>cache = [], next_address = 0\<rparr> 1 No_context 0
                  (Inr (Some \<lparr>states = Some [st_abc]\<rparr>)) 1))
          1 (Positional ''context'') 2 (Inr (Some \<lparr>states = Some []\<rparr>)) 3)
     = Inr \<lparr>address = 1, contents = []\<rparr>"
  by (simp add: cached_get_states_dict_def ttl_getitem_def ttl_setitem_def dict_get_def
        dict_contains_def get_states_def or_empty_def get_states_dict_def sv_store_def
        dict_setitem_def truthy_def ttl_def maxsize_def Let_def)

text \<open>
  C5, amended.  The cache of \<open>get_states_dict\<close> is keyed by the arguments of the call, the
  instance and the context as it is passed.  In every state reached from the empty
  cache: after a call that returned a dictionary object, the cache holds that object
  under the key of the call, to expire at some clock reading, which is 30 seconds after
  the object was stored when the call computed it.  After any further calls, all made
  before that reading and no more of them than the cache has room for (its items and
  these calls together at most 1024, so that nothing is evicted), a call with the same
  arguments before that reading returns the identical object, whatever the provider
  would do.  After any further calls, a call with arguments whose key is not in the
  cache returns a new dictionary object, at an address above that of the first object
  and of every cached object.
\<close>

theorem cached_snapshot_same_arguments:
  assumes "st = calls_run \<lparr>cache = [], next_address = a\<rparr> cs0"
    and "cached_get_states_dict st self args t1 p1 t1' = (Inr v, st')"
  shows "\<exists>expires. dict_get (cache st') (self, args) = Some (v, expires)
     \<and> (fst (ttl_getitem (cache st) t1 (self, args)) = None \<longrightarrow> expires = t1' + 30)
     \<and> (\<forall>cs t2 p2 t2'.
          list_all (\<lambda>c. c_lookup c < expires \<and> c_store c < expires) cs \<and>
          length (cache st') + length cs \<le> 1024 \<and> t2 < expires \<longrightarrow>
            fst (cached_get_states_dict (calls_run st' cs) self args t2 p2 t2') = Inr v)
     \<and> (\<forall>cs self' args' t2 sts t2'.
          dict_get (cache (calls_run st' cs)) (self', args') = None \<longrightarrow>
            fst (cached_get_states_dict (calls_run st' cs) self' args' t2
                   (Inr (Some \<lparr>states = Some sts\<rparr>)) t2')
              = Inr \<lparr>address = next_address (calls_run st' cs), contents = get_states_dict sts\<rparr>
            \<and> address v < next_address (calls_run st' cs)
            \<and> list_all (\<lambda>item. address (fst (snd item)) < next_address (calls_run st' cs))
                (cache (calls_run st' cs)))"
proof -
  from cached_call_result [OF assms(2)] obtain expires
    where "dict_get (cache st') (self, args) = Some (v, expires) \<and>
           (fst (ttl_getitem (cache st) t1 (self, args)) = None \<longrightarrow> expires = t1' + ttl) \<and>
           (fst (ttl_getitem (cache st) t1 (self, args)) \<noteq> None \<longrightarrow> t1 < expires)" ..
  then have e: "dict_get (cache st') (self, args) = Some (v, expires)"
    and miss: "fst (ttl_getitem (cache st) t1 (self, args)) = None \<longrightarrow> expires = t1' + ttl"
    by (rule conjunct1, rule conjunct2 [THEN conjunct1])
  have "heap_fresh st"
    unfolding assms(1) using calls_run_heap_fresh [OF heap_fresh_empty] by (rule conjunct1)
  from call_heap_fresh [OF this, of self args t1 p1 t1'] assms(2)
  have fresh': "heap_fresh st'" by simp
  have 1: "fst (ttl_getitem (cache st) t1 (self, args)) = None \<longrightarrow> expires = t1' + 30"
    using miss by (simp add: ttl_def)
  have 2: "fst (cached_get_states_dict (calls_run st' cs) self args t2 p2 t2') = Inr v"
    if "list_all (\<lambda>c. c_lookup c < expires \<and> c_store c < expires) cs \<and>
        length (cache st') + length cs \<le> 1024 \<and> t2 < expires" for cs t2 p2 t2'
  proof -
    from that have times: "list_all (\<lambda>c. c_lookup c < expires \<and> c_store c < expires) cs"
      and len: "length (cache st') + length cs \<le> maxsize" and t2: "t2 < expires"
      by (simp_all add: maxsize_def)
    from calls_run_keeps_entry [OF e times len]
    have "dict_get (cache (calls_run st' cs)) (self, args) = Some (v, expires)" .
    from cached_call_hit [OF this t2] show ?thesis by (rule conjunct1)
  qed
  have 3: "fst (cached_get_states_dict (calls_run st' cs) self' args' t2
                   (Inr (Some \<lparr>states = Some sts\<rparr>)) t2')
              = Inr \<lparr>address = next_address (calls_run st' cs), contents = get_states_dict sts\<rparr>
            \<and> address v < next_address (calls_run st' cs)
            \<and> list_all (\<lambda>item. address (fst (snd item)) < next_address (calls_run st' cs))
                (cache (calls_run st' cs))"
    if "dict_get (cache (calls_run st' cs)) (self', args') = None" for cs self' args' t2 sts t2'
  proof -
    from calls_run_heap_fresh [OF fresh', of cs]
    have f: "heap_fresh (calls_run st' cs)"
      and m: "next_address st' \<le> next_address (calls_run st' cs)"
      by (rule conjunct1, rule conjunct2)
    from heap_fresh_entry [OF fresh' e] m have "address v < next_address (calls_run st' cs)"
      by simp
    moreover from f
    have "list_all (\<lambda>item. address (fst (snd item)) < next_address (calls_run st' cs))
                (cache (calls_run st' cs))"
      by (simp only: heap_fresh_def)
    moreover note cached_call_miss [OF that]
    ultimately show ?thesis by (intro conjI)
  qed
  have hit_all: "\<forall>cs t2 p2 t2'.
          list_all (\<lambda>c. c_lookup c < expires \<and> c_store c < expires) cs \<and>
          length (cache st') + length cs \<le> 1024 \<and> t2 < expires \<longrightarrow>
            fst (cached_get_states_dict (calls_run st' cs) self args t2 p2 t2') = Inr v"
    by (intro allI impI) (rule 2)
  have miss_all: "\<forall>cs self' args' t2 sts t2'.
          dict_get (cache (calls_run st' cs)) (self', args') = None \<longrightarrow>
            fst (cached_get_states_dict (calls_run st' cs) self' args' t2
                   (Inr (Some \<lparr>states = Some sts\<rparr>)) t2')
              = Inr \<lparr>address = next_address (calls_run st' cs), contents = get_states_dict sts\<rparr>
            \<and> address v < next_address (calls_run st' cs)
            \<and> list_all (\<lambda>item. address (fst (snd item)) < next_address (calls_run st' cs))
                (cache (calls_run st' cs))"
    by (intro allI impI) (rule 3)
  show ?thesis
    by (rule exI [of _ expires]) (intro conjI e 1 hit_all miss_all)
qed

theorem cached_snapshot_same_arguments_witness:
  "cached_get_states_dict \<lparr>cache = [], next_address = 0\<rparr> 1 (No_context :: string call_args) 0
       (Inr (Some \<lparr>states = Some [st_abc]\<rparr>)) 1
     = (Inr \<lparr>address = 0, contents = [(''abc123'', st_abc)]\<rparr>,
        \<lparr>cache = [((1, No_context), (\<lparr>address = 0, contents = [(''abc123'', st_abc)]\<rparr>, 31))],
         next_address = 1\<rparr>)
   \<and> fst (cached_get_states_dict
        (calls_run
           \<lparr>cache = [((1, No_context :: string call_args),
                      (\<lparr>address = 0, contents = [(''abc123'', st_abc)]\<rparr>, 31))],
            next_address = 1\<rparr>
           [\<lparr>c_self = 1, c_args = Positional ''context'', c_lookup = 2,
             c_provider = Inr (Some \<lparr>states = Some []\<rparr>), c_store = 3\<rparr>])
        1 No_context 4 (Inr (Some \<lparr>states = Some []\<rparr>)) 5)
     = Inr \<lparr>address = 0, contents = [(''abc123'', st_abc)]\<rparr>"
proof -
  let ?obj = "\<lparr>address = 0, contents = [(''abc123'', st_abc)]\<rparr>"
  let ?st0 = "\<lparr>cache = [], next_address = 0\<rparr> :: (string, int) cache_state"
  let ?st1 = "\<lparr>cache = [((1, No_context :: string call_args), (?obj, 31))], next_address = 1\<rparr>"
  let ?cs = "[\<lparr>c_self = 1, c_args = Positional ''context'', c_lookup = 2,
             c_provider = Inr (Some \<lparr>states = Some ([] :: int StateVector list)\<rparr>),
             c_store = 3\<rparr>]"
  have h0: "?st0 = calls_run \<lparr>cache = [], next_address = 0\<rparr> []"
    by (simp add: calls_run_def)
  have h: "cached_get_states_dict ?st0 1 (No_context :: string call_args) 0
       (Inr (Some \<lparr>states = Some [st_abc]\<rparr>)) 1 = (Inr ?obj, ?st1)"
    by (simp add: cached_get_states_dict_def ttl_getitem_def ttl_setitem_def dict_get_def
        dict_contains_def get_states_def or_empty_def get_states_dict_def sv_store_def
        dict_setitem_def truthy_def ttl_def maxsize_def Let_def)
  from cached_snapshot_same_arguments [OF h0 h]
  have "fst (cached_get_states_dict (calls_run ?st1 ?cs) 1 No_context 4
      (Inr (Some \<lparr>states = Some []\<rparr>)) 5) = Inr ?obj"
  proof (elim exE conjE)
    fix expires
    assume e: "dict_get (cache ?st1) (1, No_context) = Some (?obj, expires)"
      and hit: "\<forall>cs t2 p2 t2'.
          list_all (\<lambda>c. c_lookup c < expires \<and> c_store c < expires) cs \<and>
          length (cache ?st1) + length cs \<le> 1024 \<and> t2 < expires \<longrightarrow>
            fst (cached_get_states_dict (calls_run ?st1 cs) 1 No_context t2 p2 t2') = Inr ?obj"
    from e have x: "expires = 31" by (simp add: dict_get_def)
    have prem: "list_all (\<lambda>c. c_lookup c < expires \<and> c_store c < expires) ?cs \<and>
          length (cache ?st1) + length ?cs \<le> 1024 \<and> 4 < expires"
      by (simp add: x)
    from hit [rule_format, OF prem] show ?thesis .
  qed
  with h show ?thesis by (rule conjI)
qed

text \<open>
  C6.  The identifier-to-FlightData mapping built by the join skips every connection
  whose identifier is absent (taking such a connection out of the list leaves the mapping
  as it is), its keys are distinct, every item of it is the last connection of the list
  with the item's key as identifier, and every connection with a truthy identifier finds
  under its identifier the last connection of the list with that identifier.
\<close>

theorem flight_connections_dict_last_write_wins:
  "(fd_icao24 fc = None \<longrightarrow>
      flight_connections_dict (xs @ fc # ys) = flight_connections_dict (xs @ ys))
   \<and> distinct (map fst (flight_connections_dict fcs))
   \<and> (\<forall>(k, c) \<in> set (flight_connections_dict fcs).
        fd_icao24 c = Some k \<and> c = last [c'\<leftarrow>fcs. fd_icao24 c' = Some k])
   \<and> (\<forall>c \<in> set fcs. truthy (fd_icao24 c) \<longrightarrow>
        (\<exists>k. fd_icao24 c = Some k \<and>
           dict_get (flight_connections_dict fcs) k =
             Some (last [c'\<leftarrow>fcs. fd_icao24 c' = Some k])))"
proof (intro conjI)
  show "fd_icao24 fc = None \<longrightarrow>
      flight_connections_dict (xs @ fc # ys) = flight_connections_dict (xs @ ys)"
    by (simp add: flight_connections_dict_skip truthy_def)
  show "distinct (map fst (flight_connections_dict fcs))"
    by (rule flight_connections_dict_distinct)
  show "\<forall>(k, c) \<in> set (flight_connections_dict fcs).
        fd_icao24 c = Some k \<and> c = last [c'\<leftarrow>fcs. fd_icao24 c' = Some k]"
    using flight_connections_dict_item by blast
  show "\<forall>c \<in> set fcs. truthy (fd_icao24 c) \<longrightarrow>
        (\<exists>k. fd_icao24 c = Some k \<and>
           dict_get (flight_connections_dict fcs) k =
             Some (last [c'\<leftarrow>fcs. fd_icao24 c' = Some k]))"
  proof (intro ballI impI)
    fix c assume c: "c \<in> set fcs" and "truthy (fd_icao24 c)"
    then obtain k where k: "fd_icao24 c = Some k" "k \<noteq> []"
      by (auto simp: truthy_def split: option.splits)
    with c show "\<exists>k. fd_icao24 c = Some k \<and>
           dict_get (flight_connections_dict fcs) k =
             Some (last [c'\<leftarrow>fcs. fd_icao24 c' = Some k])"
      using flight_connections_dict_lookup by blast
  qed
qed

theorem flight_connections_dict_last_write_wins_witness:
  "flight_connections_dict
     [dep_abc, \<lparr>fd_icao24 = None, estDepartureAirport = None, estArrivalAirport = None\<rparr>, arr_abc]
     = [(''abc123'', arr_abc)]
   \<and> flight_connections_dict [dep_abc, arr_abc] = [(''abc123'', arr_abc)]
   \<and> dict_get (flight_connections_dict [dep_abc, arr_abc]) ''abc123'' = Some arr_abc"
  using flight_connections_dict_last_write_wins
    [of "\<lparr>fd_icao24 = None, estDepartureAirport = None, estArrivalAirport = None\<rparr>"
        "[dep_abc]" "[arr_abc]" "[dep_abc, arr_abc]"]
  by (simp add: flight_connections_dict_def fc_store_def dict_setitem_def dict_get_def
        truthy_def)

text \<open>
  C7, as the code has it.  The claim that \<open>from\<close> is the departure code whenever the code is
  present fails for the empty string, a code that is present:
\<close>

theorem get_flight_data_from_counterexample:
  "estDepartureAirport \<lparr>fd_icao24 = Some ''abc123'', estDepartureAirport = Some [],
                         estArrivalAirport = Some ''EHAM''\<rparr> = Some []
   \<and> r_from (get_flight_data (Some st_abc)
        \<lparr>fd_icao24 = Some ''abc123'', estDepartureAirport = Some [],
         estArrivalAirport = Some ''EHAM''\<rparr>) = ''Unknown airport''
   \<and> r_from (get_flight_data (Some st_abc)
        \<lparr>fd_icao24 = Some ''abc123'', estDepartureAirport = Some [],
         estArrivalAirport = Some ''EHAM''\<rparr>) \<noteq> []"
  by (simp add: get_flight_data_def or_default_def)

text \<open>
  C7, amended.  For every FlightData record and every state (present or not), the
  \<open>from\<close> field of the reduced record is the estimated departure airport code and the
  \<open>to\<close> field the estimated arrival airport code, each replaced by "Unknown airport" when
  the code is absent or is the empty string.
\<close>

theorem get_flight_data_airports:
  "r_from (get_flight_data state fc) =
     (case estDepartureAirport fc of
        None \<Rightarrow> ''Unknown airport''
      | Some code \<Rightarrow> if code = [] then ''Unknown airport'' else code)
   \<and> r_to (get_flight_data state fc) =
     (case estArrivalAirport fc of
        None \<Rightarrow> ''Unknown airport''
      | Some code \<Rightarrow> if code = [] then ''Unknown airport'' else code)"
  by (simp add: get_flight_data_def or_default_def Let_def split: option.splits)

theorem get_flight_data_airports_witness:
  "r_from (get_flight_data (Some st_abc) dep_abc) = ''EDDF''
   \<and> r_to (get_flight_data (Some st_abc) dep_abc) = ''Unknown airport''"
  using get_flight_data_airports [of "Some st_abc" dep_abc] by simp

text \<open>
  C8, as the code has it.  With two connections of one tracked aircraft the one record
  carries the airports of the last of them, not those of the first; and with a state
  mapping that stores a state under the empty identifier and another under an identifier
  that is not the state's own, the connections with these identifiers have no record.
\<close>

theorem join_one_record_counterexample:
  "dict_contains ''abc123'' [(''abc123'', st_abc)]
   \<and> fd_icao24 dep_abc = Some ''abc123''
   \<and> flight_connection_handler ''EDDF'' [(''abc123'', st_abc)] (\<lambda>a. Some [dep_abc, arr_abc])
     = [\<lparr>r_icao24 = Some ''abc123'', r_lat = Some 10, r_lng = Some 20, r_from = ''LFPG'',
         r_to = ''EHAM'', r_last_contact = Some 1000\<rparr>]
   \<and> or_default (estDepartureAirport dep_abc) ''Unknown airport'' = ''EDDF''
   \<and> dict_contains [] [([], st_abc\<lparr>sv_icao24 := Some []\<rparr>),
                         (''abc123'', st_abc\<lparr>sv_icao24 := Some ''def456''\<rparr>)]
   \<and> dict_contains ''abc123'' [([], st_abc\<lparr>sv_icao24 := Some []\<rparr>),
                         (''abc123'', st_abc\<lparr>sv_icao24 := Some ''def456''\<rparr>)]
   \<and> flight_connection_handler ''EDDF''
       [([], st_abc\<lparr>sv_icao24 := Some []\<rparr>), (''abc123'', st_abc\<lparr>sv_icao24 := Some ''def456''\<rparr>)]
       (\<lambda>a. Some [dep_abc\<lparr>fd_icao24 := Some []\<rparr>, dep_abc])
     = [\<lparr>r_icao24 = Some ''def456'', r_lat = Some 10, r_lng = Some 20, r_from = ''EDDF'',
         r_to = ''Unknown airport'', r_last_contact = Some 1000\<rparr>]"
  by (simp add: flight_connection_handler_def get_flight_data_args_def
        flight_connections_with_state_def flight_connections_dict_def fc_store_def
        dict_setitem_def dict_get_def dict_contains_def truthy_def or_empty_def
        or_default_def get_flight_data_def)

text \<open>
  C8, amended.  For every state mapping that stores every state under the state's own
  identifier, every connection list and every connection of the list whose identifier is
  not empty and is a key of the state mapping, the handler output contains exactly one
  record with that identifier; the record carries the latitude, longitude and last
  contact of the state stored under the identifier, and the from and to airports of the
  last connection of the list with that identifier ("Unknown airport" for a code that is
  absent or empty).
\<close>

theorem join_one_record_per_tracked_identifier:
  assumes "keyed_by_icao24 states_dict"
    and "fc \<in> set flight_connections"
    and "fd_icao24 fc = Some k"
    and "k \<noteq> []"
    and "dict_contains k states_dict"
  shows "\<exists>state. dict_get states_dict k = Some state \<and>
     [r\<leftarrow>flight_connection_handler airport states_dict (\<lambda>a. Some flight_connections).
        r_icao24 r = Some k]
     = [\<lparr>r_icao24 = Some k, r_lat = latitude state, r_lng = longitude state,
         r_from = or_default
           (estDepartureAirport (last [c\<leftarrow>flight_connections. fd_icao24 c = Some k]))
           ''Unknown airport'',
         r_to = or_default
           (estArrivalAirport (last [c\<leftarrow>flight_connections. fd_icao24 c = Some k]))
           ''Unknown airport'',
         r_last_contact = last_contact state\<rparr>]"
proof -
  from keyed_lookup [OF assms(1) assms(5)] obtain state
    where st: "dict_get states_dict k = Some state" "sv_icao24 state = Some k"
    by blast
  then show ?thesis
    by (simp add: handler_one_record [OF assms] get_flight_data_def)
qed

theorem join_one_record_per_tracked_identifier_witness:
  "keyed_by_icao24 [(''abc123'', st_abc)] \<and> dep_abc \<in> set [dep_abc, dep_def, arr_abc]
   \<and> fd_icao24 dep_abc = Some ''abc123'' \<and> ''abc123'' \<noteq> []
   \<and> dict_contains ''abc123'' [(''abc123'', st_abc)]
   \<and> [r\<leftarrow>flight_connection_handler ''EDDF'' [(''abc123'', st_abc)]
          (\<lambda>a. Some [dep_abc, dep_def, arr_abc]). r_icao24 r = Some ''abc123'']
     = [\<lparr>r_icao24 = Some ''abc123'', r_lat = Some 10, r_lng = Some 20, r_from = ''LFPG'',
         r_to = ''EHAM'', r_last_contact = Some 1000\<rparr>]"
proof -
  have h: "keyed_by_icao24 [(''abc123'', st_abc)]" "dep_abc \<in> set [dep_abc, dep_def, arr_abc]"
    "fd_icao24 dep_abc = Some ''abc123''" "''abc123'' \<noteq> []"
    "dict_contains ''abc123'' [(''abc123'', st_abc)]"
    by (simp_all add: keyed_by_icao24_def dict_contains_def)
  from join_one_record_per_tracked_identifier [OF h, of "''EDDF''"] h show ?thesis
    by (simp add: dict_get_def or_default_def)
qed

text \<open>
  C9.  The example: with the state snapshot that maps "abc123" to the state of that
  aircraft with latitude 10, longitude 20 and last contact 1000, and the departures of
  "EDDF" being the single connection of "abc123" from "EDDF" with no arrival airport, the
  join returns exactly the one record
  \<open>{icao24: "abc123", lat: 10, lng: 20, from: "EDDF", to: "Unknown airport", last_contact: 1000}\<close>.
\<close>

theorem join_example_EDDF:
  "flight_connection_handler ''EDDF''
     [(''abc123'', \<lparr>sv_icao24 = Some ''abc123'', latitude = Some (10::int),
                     longitude = Some 20, last_contact = Some 1000\<rparr>)]
     (\<lambda>airport. if airport = ''EDDF''
        then Some [\<lparr>fd_icao24 = Some ''abc123'', estDepartureAirport = Some ''EDDF'',
                    estArrivalAirport = None\<rparr>]
        else Some [])
   = [\<lparr>r_icao24 = Some ''abc123'', r_lat = Some 10, r_lng = Some 20, r_from = ''EDDF'',
       r_to = ''Unknown airport'', r_last_contact = Some 1000\<rparr>]"
  by (simp add: flight_connection_handler_def get_flight_data_args_def
        flight_connections_with_state_def flight_connections_dict_def fc_store_def
        dict_setitem_def dict_get_def dict_contains_def truthy_def or_empty_def
        or_default_def get_flight_data_def)

text \<open>
  C10.  A falsy value is treated as an absent one.  An estimated departure (arrival)
  airport code that is the empty string gives "Unknown airport" as \<open>from\<close> (\<open>to\<close>); a state
  vector whose identifier is the empty string is left out of the state mapping, and a
  connection whose identifier is the empty string out of the connection mapping, each as
  if it had no identifier and as if it were not in the list.
\<close>

theorem empty_string_as_absent:
  "(estDepartureAirport fc = Some [] \<longrightarrow>
      r_from (get_flight_data state fc) = ''Unknown airport'')
   \<and> (estArrivalAirport fc = Some [] \<longrightarrow>
      r_to (get_flight_data state fc) = ''Unknown airport'')
   \<and> (sv_icao24 s = Some [] \<longrightarrow>
      get_states_dict (ss @ s # ss') = get_states_dict (ss @ ss')
      \<and> get_states_dict (ss @ s # ss') = get_states_dict (ss @ s\<lparr>sv_icao24 := None\<rparr> # ss'))
   \<and> (fd_icao24 c = Some [] \<longrightarrow>
      flight_connections_dict (cs @ c # cs') = flight_connections_dict (cs @ cs')
      \<and> flight_connections_dict (cs @ c # cs')
          = flight_connections_dict (cs @ c\<lparr>fd_icao24 := None\<rparr> # cs'))"
  by (simp add: get_flight_data_def or_default_def Let_def truthy_def
        get_states_dict_skip flight_connections_dict_skip split: option.splits)

theorem empty_string_as_absent_witness:
  "r_from (get_flight_data (Some st_abc) (dep_abc\<lparr>estDepartureAirport := Some []\<rparr>))
     = ''Unknown airport''
   \<and> r_to (get_flight_data (Some st_abc) (dep_abc\<lparr>estArrivalAirport := Some []\<rparr>))
     = ''Unknown airport''
   \<and> get_states_dict [st_abc\<lparr>sv_icao24 := Some []\<rparr>, st_abc] = get_states_dict [st_abc]
   \<and> flight_connections_dict [dep_abc, arr_abc\<lparr>fd_icao24 := Some []\<rparr>]
     = flight_connections_dict [dep_abc]"
  using
    empty_string_as_absent [where fc = "dep_abc\<lparr>estDepartureAirport := Some []\<rparr>"
      and state = "Some st_abc" and s = "st_abc\<lparr>sv_icao24 := Some []\<rparr>" and ss = "[]"
      and ss' = "[st_abc]" and c = "arr_abc\<lparr>fd_icao24 := Some []\<rparr>" and cs = "[dep_abc]"
      and cs' = "[]"]
    empty_string_as_absent [where fc = "dep_abc\<lparr>estArrivalAirport := Some []\<rparr>"
      and state = "Some st_abc" and s = "st_abc\<lparr>sv_icao24 := Some []\<rparr>" and ss = "[]"
      and ss' = "[st_abc]" and c = "arr_abc\<lparr>fd_icao24 := Some []\<rparr>" and cs = "[dep_abc]"
      and cs' = "[]"]
  by simp

end
